theory Spec2Isabelle
  imports Complex_Main "HOL-Library.Char_ord" "HOL-Library.List_Lexorder"
begin

section \<open>Conventions\<close>

text \<open>
  The engine is JavaScript/TypeScript. Its \<^verbatim>\<open>number\<close>s (probabilities, USD amounts, scores,
  epoch milliseconds) are modelled as reals. Comparisons, counts and sums are exact;
  \<open>calculateRealizedPnl\<close>, whose value is stated at concrete inputs, rounds each operation
  to binary64 as the source's arithmetic does. NaN and the infinities are outside the
  model, except where the source itself uses them as a sentinel (\<^verbatim>\<open>-Infinity\<close> in
  \<^verbatim>\<open>computeSummaryStats\<close>, an \<^verbatim>\<open>undefined\<close> score), which is then an \<open>option\<close>. \<^verbatim>\<open>Date.now()\<close> is an explicit argument. A plain object used as a dictionary
  is an association list in \<^verbatim>\<open>Object.entries\<close> order; a \<^verbatim>\<open>Map\<close> is a HOL map.
  A function that mutates its argument or a module-level cache returns the new value next
  to its result. A thrown error is the left summand of the result.
\<close>

section \<open>Agent profiles (domain module)\<close>

datatype risk = LOW | MEDIUM | HIGH

record weights =
  volumeWeight :: real
  liquidityWeight :: real
  priceMovementWeight :: real
  newsWeight :: real
  probWeight :: real

text \<open>
  \<open>profile_id\<close> is the field \<^verbatim>\<open>id\<close> of the source. The avatars are emoji, given here
  by their UTF-8 bytes. \<open>maxTrades\<close> is a natural number, as it is in every profile of the
  registry.
\<close>

record agentProfile =
  profile_id :: string
  displayName :: string
  avatar :: string
  minVolume :: real
  minLiquidity :: real
  maxTrades :: nat
  risk :: risk
  focusCategories :: "string list"
  weights :: weights

text \<open>The own properties of the object literal \<^verbatim>\<open>AGENT_PROFILES\<close>, in insertion order.\<close>

definition AGENT_PROFILES :: "(string \<times> agentProfile) list" where
  "AGENT_PROFILES =
    [(''GROK_4'',
       \<lparr>profile_id = ''GROK_4'', displayName = ''GROK 4'',
        avatar = [CHR 0xF0, CHR 0x9F, CHR 0x94, CHR 0xA5],
        minVolume = 30000, minLiquidity = 5000, maxTrades = 5, risk = HIGH,
        focusCategories = [''Crypto'', ''Tech'', ''Politics''],
        weights = \<lparr>volumeWeight = 1.3, liquidityWeight = 1.0, priceMovementWeight = 1.4,
                    newsWeight = 0.9, probWeight = 1.0\<rparr>\<rparr>),
     (''GPT_5'',
       \<lparr>profile_id = ''GPT_5'', displayName = ''GPT-5'',
        avatar = [CHR 0xE2, CHR 0x9C, CHR 0xA8],
        minVolume = 100000, minLiquidity = 20000, maxTrades = 4, risk = MEDIUM,
        focusCategories = [''Tech'', ''Finance'', ''Crypto''],
        weights = \<lparr>volumeWeight = 1.1, liquidityWeight = 1.2, priceMovementWeight = 1.0,
                    newsWeight = 1.1, probWeight = 1.1\<rparr>\<rparr>),
     (''DEEPSEEK_V3'',
       \<lparr>profile_id = ''DEEPSEEK_V3'', displayName = ''DEEPSEEK V3'',
        avatar = [CHR 0xF0, CHR 0x9F, CHR 0x94, CHR 0xAE],
        minVolume = 75000, minLiquidity = 15000, maxTrades = 6, risk = MEDIUM,
        focusCategories = [''Crypto'', ''Finance'', ''Elections''],
        weights = \<lparr>volumeWeight = 1.0, liquidityWeight = 1.0, priceMovementWeight = 1.1,
                    newsWeight = 1.3, probWeight = 1.0\<rparr>\<rparr>),
     (''GEMINI_2_5'',
       \<lparr>profile_id = ''GEMINI_2_5'', displayName = ''GEMINI 2.5'',
        avatar = [CHR 0xE2, CHR 0x99, CHR 0x8A],
        minVolume = 20000, minLiquidity = 3000, maxTrades = 7, risk = HIGH,
        focusCategories = [''Sports'', ''Entertainment'', ''World''],
        weights = \<lparr>volumeWeight = 0.9, liquidityWeight = 0.9, priceMovementWeight = 1.3,
                    newsWeight = 1.4, probWeight = 1.0\<rparr>\<rparr>),
     (''CLAUDE_4_5'',
       \<lparr>profile_id = ''CLAUDE_4_5'', displayName = ''CLAUDE 4.5'',
        avatar = [CHR 0xF0, CHR 0x9F, CHR 0xA7, CHR 0xA0],
        minVolume = 80000, minLiquidity = 18000, maxTrades = 5, risk = LOW,
        focusCategories = [''Finance'', ''Politics'', ''Elections''],
        weights = \<lparr>volumeWeight = 1.0, liquidityWeight = 1.3, priceMovementWeight = 0.9,
                    newsWeight = 1.4, probWeight = 1.2\<rparr>\<rparr>),
     (''QWEN_2_5'',
       \<lparr>profile_id = ''QWEN_2_5'', displayName = ''QWEN 2.5'',
        avatar = [CHR 0xF0, CHR 0x9F, CHR 0xA4, CHR 0x96],
        minVolume = 60000, minLiquidity = 12000, maxTrades = 6, risk = MEDIUM,
        focusCategories = [''Finance'', ''Geopolitics'', ''World''],
        weights = \<lparr>volumeWeight = 1.1, liquidityWeight = 1.0, priceMovementWeight = 1.0,
                    newsWeight = 1.2, probWeight = 1.1\<rparr>\<rparr>)]"

text \<open>\<^verbatim>\<open>Object.keys(AGENT_PROFILES)\<close>\<close>

definition ALL_AGENT_IDS :: "string list" where
  "ALL_AGENT_IDS = map fst AGENT_PROFILES"

text \<open>
  \<^verbatim>\<open>AGENT_PROFILES\<close> is an object literal, so its prototype is \<^verbatim>\<open>Object.prototype\<close>, and
  the property read \<^verbatim>\<open>AGENT_PROFILES[agentId]\<close> looks there when the object has no own
  property of that name. These are the names \<^verbatim>\<open>Object.prototype\<close> defines (ECMAScript,
  with its Annex B); each of them reads as a function or an object, which is truthy.
\<close>

definition OBJECT_PROTOTYPE_KEYS :: "string list" where
  "OBJECT_PROTOTYPE_KEYS =
    [''constructor'', ''hasOwnProperty'', ''isPrototypeOf'', ''propertyIsEnumerable'',
     ''toLocaleString'', ''toString'', ''valueOf'', ''__proto__'',
     ''__defineGetter__'', ''__defineSetter__'', ''__lookupGetter__'', ''__lookupSetter__'']"

text \<open>
  What the property read yields: a profile, a member inherited from
  \<^verbatim>\<open>Object.prototype\<close> (by name), or \<^verbatim>\<open>undefined\<close>.
\<close>

datatype profileLookup = Profile agentProfile | Inherited string | Undefined

definition lookupProfile :: "string \<Rightarrow> profileLookup" where
  "lookupProfile agentId =
     (case map_of AGENT_PROFILES agentId of
        Some p \<Rightarrow> Profile p
      | None \<Rightarrow> if agentId \<in> set OBJECT_PROTOTYPE_KEYS then Inherited agentId else Undefined)"

text \<open>A thrown \<^verbatim>\<open>Error\<close>, with its message.\<close>

datatype error = Error string

text \<open>
  \<open>getAgentProfile\<close> throws when the value read is falsy, which of the three is only
  \<^verbatim>\<open>undefined\<close>, and returns the value read otherwise.
\<close>

definition getAgentProfile :: "string \<Rightarrow> error + profileLookup" where
  "getAgentProfile agentId =
     (case lookupProfile agentId of
        Undefined \<Rightarrow> Inl (Error (''Unknown agent ID: '' @ agentId))
      | found \<Rightarrow> Inr found)"

text \<open>\<^verbatim>\<open>id in AGENT_PROFILES\<close> also looks along the prototype chain.\<close>

definition isValidAgentId :: "string \<Rightarrow> bool" where
  "isValidAgentId agentId = (lookupProfile agentId \<noteq> Undefined)"



section \<open>Trade lifecycle management (lifecycle module)\<close>

datatype side = YES | NO

text \<open>
  The fields of a position that the lifecycle module reads. \<open>openedAt\<close> is the result of
  \<^verbatim>\<open>new Date(position.openedAt).getTime()\<close>: epoch milliseconds, or \<open>None\<close> for a date
  that does not parse (the source then computes with NaN, and every comparison is false).
\<close>

record position =
  side :: side
  entryProbability :: real
  sizeUsd :: real
  openedAt :: "real option"
  unrealizedPnl :: real

text \<open>
  The fields of a market that the modules under study read; \<open>market_id\<close> is the field
  \<^verbatim>\<open>id\<close> of the source.
\<close>

record market =
  market_id :: string
  currentProbability :: real

definition TAKE_PROFIT_YES :: real where "TAKE_PROFIT_YES = 0.8"
definition TAKE_PROFIT_NO :: real where "TAKE_PROFIT_NO = 0.2"
definition STOP_LOSS_YES :: real where "STOP_LOSS_YES = 0.3"
definition STOP_LOSS_NO :: real where "STOP_LOSS_NO = 0.7"
definition MAX_HOLDING_DAYS :: real where "MAX_HOLDING_DAYS = 30"
definition MIN_SCORE_THRESHOLD :: real where "MIN_SCORE_THRESHOLD = 20"

text \<open>\<^verbatim>\<open>(Date.now() - openedAt.getTime()) / (1000 * 60 * 60 * 24)\<close>\<close>

definition daysOpen :: "real \<Rightarrow> position \<Rightarrow> real option" where
  "daysOpen now pos =
     (case openedAt pos of
        None \<Rightarrow> None
      | Some t \<Rightarrow> Some ((now - t) / (1000 * 60 * 60 * 24)))"

text \<open>
  \<open>shouldClosePosition now position market score\<close>: \<open>now\<close> is the reading of
  \<^verbatim>\<open>Date.now()\<close>, \<open>score\<close> is \<open>None\<close> for \<^verbatim>\<open>undefined\<close>. The checks are in the order of
  the source.
\<close>

definition shouldClosePosition :: "real \<Rightarrow> position \<Rightarrow> market \<Rightarrow> real option \<Rightarrow> bool" where
  "shouldClosePosition now pos mkt score =
     (let currentProb = currentProbability mkt in
      if side pos = YES \<and> currentProb \<ge> TAKE_PROFIT_YES then True
      else if side pos = NO \<and> currentProb \<le> TAKE_PROFIT_NO then True
      else if side pos = YES \<and> currentProb \<le> STOP_LOSS_YES then True
      else if side pos = NO \<and> currentProb \<ge> STOP_LOSS_NO then True
      else if (case daysOpen now pos of None \<Rightarrow> False | Some d \<Rightarrow> d \<ge> MAX_HOLDING_DAYS) then True
      else if (case score of None \<Rightarrow> False | Some s \<Rightarrow> s < MIN_SCORE_THRESHOLD) then True
      else False)"

subsection \<open>Binary64 arithmetic\<close>

text \<open>
  A JavaScript number is an IEEE-754 binary64 value, and every arithmetic operation returns
  the exact result rounded to the nearest such value, ties to the even significand.
  \<open>binary64 x\<close> is that rounding of the real \<open>x\<close>: with \<open>e\<close> the exponent of \<open>x\<close>
  (\<open>2 ^ e \<le> \<bar>x\<bar> < 2 ^ (e + 1)\<close>, and no less than \<open>-1022\<close>, below which the values
  are subnormal), the values are the multiples of \<open>2 ^ (e - 52)\<close>. Overflow to an infinity
  (from \<open>2 ^ 1024\<close> on) and NaN are not modelled. A decimal literal of the source denotes
  the rounding of its decimal value.
\<close>

definition roundHalfEven :: "real \<Rightarrow> int" where
  "roundHalfEven y =
     (let f = \<lfloor>y\<rfloor>; r = y - of_int f in
      if r < 1 / 2 then f
      else if r > 1 / 2 then f + 1
      else if even f then f else f + 1)"

text \<open>The exponent of \<open>a \<ge> 1\<close> by halving, and of \<open>0 < a < 1\<close> by doubling.\<close>

fun exponentUp :: "nat \<Rightarrow> real \<Rightarrow> int" where
  "exponentUp 0 a = 0"
| "exponentUp (Suc k) a = (if a < 2 then 0 else exponentUp k (a / 2) + 1)"

fun exponentDown :: "nat \<Rightarrow> real \<Rightarrow> int" where
  "exponentDown 0 a = 0"
| "exponentDown (Suc k) a = (if 1 \<le> a then 0 else exponentDown k (a * 2) - 1)"

definition exponentOf :: "real \<Rightarrow> int" where
  "exponentOf x =
     (let a = \<bar>x\<bar> in if 1 \<le> a then exponentUp 1023 a else exponentDown 1022 a)"

definition binary64 :: "real \<Rightarrow> real" where
  "binary64 x =
     (if x = 0 then 0
      else (let ulp = 2 powi (exponentOf x - 52)
            in of_int (roundHalfEven (x / ulp)) * ulp))"

text \<open>The normal range of binary64, where the values have 53 significant bits.\<close>

definition normalRange :: "real \<Rightarrow> bool" where
  "normalRange x = (1 / 2 ^ 1022 \<le> \<bar>x\<bar> \<and> \<bar>x\<bar> < 2 ^ 1024)"

subsection \<open>Realized P\&L and the flip rule\<close>

text \<open>
  \<open>calculateRealizedPnl\<close>: a subtraction and a multiplication, each rounded as the source's
  arithmetic rounds it.
\<close>

definition calculateRealizedPnl :: "position \<Rightarrow> real \<Rightarrow> real" where
  "calculateRealizedPnl pos exitProbability =
     (let entryProb = entryProbability pos; size = sizeUsd pos in
      if side pos = YES then binary64 (binary64 (exitProbability - entryProb) * size)
      else binary64 (binary64 (entryProb - exitProbability) * size))"

text \<open>The \<open>agent\<close> argument is accepted and never read, as in the source.\<close>

definition shouldFlipPosition :: "position \<Rightarrow> market \<Rightarrow> agentProfile \<Rightarrow> real \<Rightarrow> bool" where
  "shouldFlipPosition pos mkt agent newConfidence =
     (let currentProb = currentProbability mkt;
          entryProb = entryProbability pos;
          isLosing = (if side pos = YES then currentProb < entryProb else currentProb > entryProb)
      in if \<not> isLosing then False
         else if newConfidence < 0.7 then False
         else if \<bar>currentProb - entryProb\<bar> < 0.1 then False
         else True)"

subsection \<open>Batch processing of a portfolio\<close>

record closedPosition =
  position :: position
  realizedPnl :: real

text \<open>
  \<open>openPositions\<close> is a plain object keyed by market id: an association list in
  \<^verbatim>\<open>Object.entries\<close> order, whose keys are distinct.
\<close>

record portfolio =
  openPositions :: "(string \<times> position) list"
  realizedPnlUsd :: real
  currentCapitalUsd :: real

text \<open>\<^verbatim>\<open>delete obj[key]\<close>\<close>

definition deleteKey :: "string \<Rightarrow> (string \<times> 'v) list \<Rightarrow> (string \<times> 'v) list" where
  "deleteKey k kvs = filter (\<lambda>kv. fst kv \<noteq> k) kvs"

text \<open>\<^verbatim>\<open>scoresMap?.get(marketId)\<close>: \<open>None\<close> when there is no map or no entry.\<close>

definition scoreOf :: "(string \<rightharpoonup> real) option \<Rightarrow> string \<Rightarrow> real option" where
  "scoreOf scoresMap marketId = (case scoresMap of None \<Rightarrow> None | Some sm \<Rightarrow> sm marketId)"

text \<open>
  The body of the \<^verbatim>\<open>for\<close> loop of \<^verbatim>\<open>processPositionLifecycle\<close> for one entry
  \<open>(marketId, position)\<close>, on the portfolio and the list of closed positions so far.
  \<open>now\<close> is what \<^verbatim>\<open>Date.now()\<close> returns inside \<open>shouldClosePosition\<close> at this iteration.
\<close>

definition lifecycleStep ::
  "real \<Rightarrow> (string \<rightharpoonup> market) \<Rightarrow> (string \<rightharpoonup> real) option \<Rightarrow> string \<times> position
     \<Rightarrow> portfolio \<times> closedPosition list \<Rightarrow> portfolio \<times> closedPosition list" where
  "lifecycleStep now marketsMap scoresMap entry st =
     (let marketId = fst entry; pos = snd entry; pf = fst st; closedPositions = snd st in
      case marketsMap marketId of
        None \<Rightarrow>
          (pf\<lparr>openPositions := deleteKey marketId (openPositions pf)\<rparr>,
           closedPositions @ [\<lparr>position = pos, realizedPnl = unrealizedPnl pos\<rparr>])
      | Some mkt \<Rightarrow>
          if shouldClosePosition now pos mkt (scoreOf scoresMap marketId) then
            (let pnl = calculateRealizedPnl pos (currentProbability mkt) in
             (pf\<lparr>openPositions := deleteKey marketId (openPositions pf),
                 realizedPnlUsd := realizedPnlUsd pf + pnl,
                 currentCapitalUsd := currentCapitalUsd pf + pnl\<rparr>,
              closedPositions @ [\<lparr>position = pos, realizedPnl = pnl\<rparr>]))
          else (pf, closedPositions))"

text \<open>
  The loop runs over the entries as they were when it started (\<^verbatim>\<open>Object.entries\<close> takes a
  snapshot); \<open>clock i\<close> is the reading of \<^verbatim>\<open>Date.now()\<close> at the \<open>i\<close>-th entry.
\<close>

fun lifecycleLoop ::
  "(nat \<Rightarrow> real) \<Rightarrow> nat \<Rightarrow> (string \<rightharpoonup> market) \<Rightarrow> (string \<rightharpoonup> real) option
     \<Rightarrow> (string \<times> position) list \<Rightarrow> portfolio \<times> closedPosition list
     \<Rightarrow> portfolio \<times> closedPosition list" where
  "lifecycleLoop clock i marketsMap scoresMap [] st = st"
| "lifecycleLoop clock i marketsMap scoresMap (entry # entries) st =
     lifecycleLoop clock (Suc i) marketsMap scoresMap entries
       (lifecycleStep (clock i) marketsMap scoresMap entry st)"

text \<open>Returns the mutated portfolio together with the returned array.\<close>

definition processPositionLifecycle ::
  "(nat \<Rightarrow> real) \<Rightarrow> portfolio \<Rightarrow> (string \<rightharpoonup> market) \<Rightarrow> (string \<rightharpoonup> real) option
     \<Rightarrow> portfolio \<times> closedPosition list" where
  "processPositionLifecycle clock pf marketsMap scoresMap =
     lifecycleLoop clock 0 marketsMap scoresMap (openPositions pf) (pf, [])"

section \<open>Agent trade cache (cache module)\<close>

definition CACHE_TTL_MS :: real where "CACHE_TTL_MS = 30 * 1000"

record 't cacheEntry =
  trades :: "'t list"
  generatedAt :: real
  marketIds :: "string list"

type_synonym 't agentCache = "string \<rightharpoonup> 't cacheEntry"

text \<open>
  The comparison loop of \<^verbatim>\<open>getCachedAgentTrades\<close>, from index \<open>i\<close>: \<open>True\<close> when it
  finds an index at which the two arrays differ. It runs only after the lengths were found
  equal, so every index it reads is in range of both.
\<close>

function marketIdsDiffer :: "nat \<Rightarrow> string list \<Rightarrow> string list \<Rightarrow> bool" where
  "marketIdsDiffer i entryIds currentIds =
     (if i < length entryIds then
        (if entryIds ! i \<noteq> currentIds ! i then True
         else marketIdsDiffer (Suc i) entryIds currentIds)
      else False)"
  by pat_completeness auto
termination
  by (relation "measure (\<lambda>(i, entryIds, currentIds). length entryIds - i)") auto

declare marketIdsDiffer.simps [simp del]

text \<open>
  \<open>getCachedAgentTrades now agentId currentMarketIds cache\<close> returns the result
  (\<open>None\<close> for \<^verbatim>\<open>null\<close>) and the cache after the call.
\<close>

definition getCachedAgentTrades ::
  "real \<Rightarrow> string \<Rightarrow> string list \<Rightarrow> 't agentCache \<Rightarrow> 't list option \<times> 't agentCache" where
  "getCachedAgentTrades now agentId currentMarketIds cache =
     (case cache agentId of
        None \<Rightarrow> (None, cache)
      | Some entry \<Rightarrow>
          if now - generatedAt entry \<ge> CACHE_TTL_MS then (None, cache(agentId := None))
          else if length (marketIds entry) \<noteq> length currentMarketIds
            then (None, cache(agentId := None))
          else if marketIdsDiffer 0 (marketIds entry) currentMarketIds
            then (None, cache(agentId := None))
          else (Some (trades entry), cache))"

definition setCachedAgentTrades ::
  "real \<Rightarrow> string \<Rightarrow> 't list \<Rightarrow> string list \<Rightarrow> 't agentCache \<Rightarrow> 't agentCache" where
  "setCachedAgentTrades now agentId ts ids cache =
     cache(agentId \<mapsto> \<lparr>trades = ts, generatedAt = now, marketIds = ids\<rparr>)"

definition getCachedTradesQuick ::
  "real \<Rightarrow> string \<Rightarrow> 't agentCache \<Rightarrow> 't list option \<times> 't agentCache" where
  "getCachedTradesQuick now agentId cache =
     (case cache agentId of
        None \<Rightarrow> (None, cache)
      | Some entry \<Rightarrow>
          if now - generatedAt entry \<ge> CACHE_TTL_MS then (None, cache(agentId := None))
          else (Some (trades entry), cache))"

section \<open>Trades\<close>

datatype status = OPEN | CLOSED

text \<open>A field that holds a number, \<^verbatim>\<open>null\<close> or nothing (\<^verbatim>\<open>undefined\<close>).\<close>

datatype pnlValue = Pnl real | PnlNull | PnlUndefined

text \<open>
  The fields of a trade that the summary and the statistics read. \<open>trade_marketId\<close> is the
  field \<^verbatim>\<open>marketId\<close> of the source.
\<close>

record agentTrade =
  trade_marketId :: string
  status :: status
  pnl :: pnlValue
  investmentUsd :: real

text \<open>\<^verbatim>\<open>t.pnl || 0\<close>: a number that is not zero is itself, everything else is 0.\<close>

definition pnlOrZero :: "agentTrade \<Rightarrow> real" where
  "pnlOrZero t = (case pnl t of Pnl x \<Rightarrow> x | PnlNull \<Rightarrow> 0 | PnlUndefined \<Rightarrow> 0)"

section \<open>Summary across agents (summary module)\<close>

record summaryStats =
  totalPnl :: real
  openTradesCount :: nat
  closedTradesCount :: nat
  bestAgentByPnl :: "string option"

text \<open>
  The variables of the loop of \<^verbatim>\<open>computeSummaryStats\<close>. \<open>acc_bestPnl = None\<close> is
  \<^verbatim>\<open>-Infinity\<close>; \<open>acc_bestAgent = None\<close> is \<^verbatim>\<open>null\<close>.
\<close>

record summaryAcc =
  acc_totalPnl :: real
  acc_open :: nat
  acc_closed :: nat
  acc_bestAgent :: "string option"
  acc_bestPnl :: "real option"

definition summaryStep :: "string \<times> agentTrade list \<Rightarrow> summaryAcc \<Rightarrow> summaryAcc" where
  "summaryStep entry acc =
     (let agentId = fst entry; ts = snd entry;
          closedTrades = filter (\<lambda>t. status t = CLOSED) ts;
          agentPnl = foldl (\<lambda>sum t. sum + pnlOrZero t) 0 closedTrades;
          acc1 = acc\<lparr>acc_totalPnl := acc_totalPnl acc + agentPnl,
                     acc_open := acc_open acc + length (filter (\<lambda>t. status t = OPEN) ts),
                     acc_closed := acc_closed acc + length closedTrades\<rparr>
      in if (case acc_bestPnl acc of None \<Rightarrow> True | Some best \<Rightarrow> agentPnl > best)
         then acc1\<lparr>acc_bestPnl := Some agentPnl, acc_bestAgent := Some agentId\<rparr>
         else acc1)"

text \<open>\<open>tradesByAgent\<close> is a plain object: its entries in \<^verbatim>\<open>Object.entries\<close> order.\<close>

definition computeSummaryStats :: "(string \<times> agentTrade list) list \<Rightarrow> summaryStats" where
  "computeSummaryStats tradesByAgent =
     (let acc = foldl (\<lambda>acc entry. summaryStep entry acc)
                  \<lparr>acc_totalPnl = 0, acc_open = 0, acc_closed = 0,
                   acc_bestAgent = None, acc_bestPnl = None\<rparr>
                  tradesByAgent
      in \<lparr>totalPnl = acc_totalPnl acc,
          openTradesCount = acc_open acc,
          closedTradesCount = acc_closed acc,
          bestAgentByPnl = (case acc_bestPnl acc of None \<Rightarrow> None | Some b \<Rightarrow> acc_bestAgent acc)\<rparr>)"

section \<open>Agent statistics (stats module)\<close>









section \<open>Agent trade generator (generator module)\<close>

text \<open>A scored market is the market with its score.\<close>

record scoredMarket = market +
  score :: real

text \<open>
  What one call of \<^verbatim>\<open>generateTradeForMarket\<close> comes to: a trade, \<^verbatim>\<open>null\<close>, or a
  thrown error, which the loop catches.
\<close>

datatype tradeOutcome = Accepted agentTrade | Skipped | Failed








subsection \<open>Reference notions for the generator\<close>

text \<open>
  What consulting every market of \<open>topMarkets\<close> from index \<open>i\<close> on would come to, in
  order and with the state passed along, and the trades among a list of outcomes. The loop
  is compared with these.
\<close>

function outcomesFrom ::
  "(scoredMarket \<Rightarrow> nat \<Rightarrow> 's \<Rightarrow> tradeOutcome \<times> 's) \<Rightarrow> scoredMarket list \<Rightarrow> nat \<Rightarrow> 's
     \<Rightarrow> tradeOutcome list" where
  "outcomesFrom consult topMarkets i s =
     (if i < length topMarkets then
        (case consult (topMarkets ! i) i s of
           (outcome, s') \<Rightarrow> outcome # outcomesFrom consult topMarkets (Suc i) s')
      else [])"
  by pat_completeness auto
termination
  by (relation "measure (\<lambda>(consult, topMarkets, i, s). length topMarkets - i)") auto

declare outcomesFrom.simps [simp del]





section \<open>Properties of the exit rules and of realized P\&L\<close>

lemmas EXIT_THRESHOLDS =
  TAKE_PROFIT_YES_def TAKE_PROFIT_NO_def STOP_LOSS_YES_def STOP_LOSS_NO_def
  MAX_HOLDING_DAYS_def MIN_SCORE_THRESHOLD_def

text \<open>
  Claim C4. \<open>shouldClosePosition\<close> returns true for a YES position when the market's
  probability is exactly 0.80, and false for a YES position at 0.79 when no other exit
  condition holds (the position has been open for less than 30 days, and the score, if one
  is supplied, is at least 20; the YES stop-loss cannot hold at 0.79). A NO position closes
  at exactly 0.20 (take-profit) and at exactly 0.70 (stop-loss), and a YES position closes
  at exactly 0.30 (stop-loss).
\<close>

theorem C4_shouldClosePosition_boundaries:
  "(side pos = YES \<and> currentProbability mkt = 0.80 \<longrightarrow> shouldClosePosition now pos mkt sc)
   \<and> (side pos = YES \<and> currentProbability mkt = 0.79
        \<and> (case daysOpen now pos of None \<Rightarrow> True | Some d \<Rightarrow> d < 30)
        \<and> (case sc of None \<Rightarrow> True | Some s \<Rightarrow> 20 \<le> s)
       \<longrightarrow> \<not> shouldClosePosition now pos mkt sc)
   \<and> (side pos = NO \<and> currentProbability mkt = 0.20 \<longrightarrow> shouldClosePosition now pos mkt sc)
   \<and> (side pos = NO \<and> currentProbability mkt = 0.70 \<longrightarrow> shouldClosePosition now pos mkt sc)
   \<and> (side pos = YES \<and> currentProbability mkt = 0.30 \<longrightarrow> shouldClosePosition now pos mkt sc)"
  by (auto simp: shouldClosePosition_def EXIT_THRESHOLDS split: option.splits)

text \<open>
  The boundaries at concrete positions, one day after they were opened, with a score of 50.
\<close>

theorem C4_shouldClosePosition_boundaries_witness:
  "shouldClosePosition 86400000
     \<lparr>side = YES, entryProbability = 0.5, sizeUsd = 100, openedAt = Some 0, unrealizedPnl = 0\<rparr>
     \<lparr>market_id = ''m1'', currentProbability = 0.80\<rparr> (Some 50)
   \<and> \<not> shouldClosePosition 86400000
     \<lparr>side = YES, entryProbability = 0.5, sizeUsd = 100, openedAt = Some 0, unrealizedPnl = 0\<rparr>
     \<lparr>market_id = ''m1'', currentProbability = 0.79\<rparr> (Some 50)
   \<and> shouldClosePosition 86400000
     \<lparr>side = NO, entryProbability = 0.5, sizeUsd = 100, openedAt = Some 0, unrealizedPnl = 0\<rparr>
     \<lparr>market_id = ''m1'', currentProbability = 0.20\<rparr> (Some 50)
   \<and> shouldClosePosition 86400000
     \<lparr>side = NO, entryProbability = 0.5, sizeUsd = 100, openedAt = Some 0, unrealizedPnl = 0\<rparr>
     \<lparr>market_id = ''m1'', currentProbability = 0.70\<rparr> (Some 50)
   \<and> shouldClosePosition 86400000
     \<lparr>side = YES, entryProbability = 0.5, sizeUsd = 100, openedAt = Some 0, unrealizedPnl = 0\<rparr>
     \<lparr>market_id = ''m1'', currentProbability = 0.30\<rparr> (Some 50)"
  using C4_shouldClosePosition_boundaries
          [of "\<lparr>side = YES, entryProbability = 0.5, sizeUsd = 100, openedAt = Some 0,
                 unrealizedPnl = 0\<rparr>"
              "\<lparr>market_id = ''m1'', currentProbability = 0.80\<rparr>" 86400000 "Some 50"]
        C4_shouldClosePosition_boundaries
          [of "\<lparr>side = YES, entryProbability = 0.5, sizeUsd = 100, openedAt = Some 0,
                 unrealizedPnl = 0\<rparr>"
              "\<lparr>market_id = ''m1'', currentProbability = 0.79\<rparr>" 86400000 "Some 50"]
        C4_shouldClosePosition_boundaries
          [of "\<lparr>side = NO, entryProbability = 0.5, sizeUsd = 100, openedAt = Some 0,
                 unrealizedPnl = 0\<rparr>"
              "\<lparr>market_id = ''m1'', currentProbability = 0.20\<rparr>" 86400000 "Some 50"]
        C4_shouldClosePosition_boundaries
          [of "\<lparr>side = NO, entryProbability = 0.5, sizeUsd = 100, openedAt = Some 0,
                 unrealizedPnl = 0\<rparr>"
              "\<lparr>market_id = ''m1'', currentProbability = 0.70\<rparr>" 86400000 "Some 50"]
        C4_shouldClosePosition_boundaries
          [of "\<lparr>side = YES, entryProbability = 0.5, sizeUsd = 100, openedAt = Some 0,
                 unrealizedPnl = 0\<rparr>"
              "\<lparr>market_id = ''m1'', currentProbability = 0.30\<rparr>" 86400000 "Some 50"]
  by (simp add: daysOpen_def)

text \<open>
  Rounding to binary64 moves a value of the normal range by at most half a unit in the
  last place, which is a relative error of at most \<open>2 ^ -53\<close>.
\<close>

lemma roundHalfEven_error: "\<bar>of_int (roundHalfEven y) - y\<bar> \<le> 1 / 2"
proof -
  have "of_int \<lfloor>y\<rfloor> \<le> y" "y < of_int \<lfloor>y\<rfloor> + 1" by linarith+
  then show ?thesis
    by (auto simp: roundHalfEven_def Let_def abs_le_iff)
qed

lemma exponentUp_bounds:
  "1 \<le> a \<Longrightarrow> a < 2 ^ Suc k \<Longrightarrow>
     0 \<le> exponentUp k a \<and> 2 powi (exponentUp k a) \<le> a \<and> a < 2 powi (exponentUp k a + 1)"
proof (induction k arbitrary: a)
  case 0
  then show ?case by simp
next
  case (Suc k)
  show ?case
  proof (cases "a < 2")
    case True
    with Suc.prems show ?thesis by simp
  next
    case False
    then have "1 \<le> a / 2" "a / 2 < 2 ^ Suc k" using Suc.prems by simp_all
    from Suc.IH [OF this] have IH: "0 \<le> exponentUp k (a / 2)"
      "2 powi (exponentUp k (a / 2)) \<le> a / 2" "a / 2 < 2 powi (exponentUp k (a / 2) + 1)"
      by blast+
    have "2 powi (exponentUp k (a / 2) + 1) = (2 * 2 powi (exponentUp k (a / 2)) :: real)"
      by (simp add: power_int_add)
    moreover have "2 powi (exponentUp k (a / 2) + 1 + 1)
                     = (2 * 2 powi (exponentUp k (a / 2) + 1) :: real)"
      by (simp add: power_int_add)
    ultimately show ?thesis using False IH by (simp add: add.commute)
  qed
qed

lemma exponentDown_bounds:
  "0 < a \<Longrightarrow> a < 1 \<Longrightarrow> 1 \<le> a * 2 ^ k \<Longrightarrow>
     - int k \<le> exponentDown k a \<and> 2 powi (exponentDown k a) \<le> a
       \<and> a < 2 powi (exponentDown k a + 1)"
proof (induction k arbitrary: a)
  case 0
  then show ?case by simp
next
  case (Suc k)
  show ?case
  proof (cases "1 \<le> a * 2")
    case True
    then have e: "exponentDown (Suc k) a = (if k = 0 then 0 else 0) - 1"
      using Suc.prems by (cases k) simp_all
    have "2 powi (- 1) = (1 / 2 :: real)" by (simp add: power_int_minus field_simps)
    with True e Suc.prems show ?thesis by simp
  next
    case False
    then have p: "0 < a * 2" "a * 2 < 1" "1 \<le> a * 2 * 2 ^ k"
      using Suc.prems by (simp_all add: mult.assoc)
    from Suc.IH [OF p] have IH: "- int k \<le> exponentDown k (a * 2)"
      "2 powi (exponentDown k (a * 2)) \<le> a * 2" "a * 2 < 2 powi (exponentDown k (a * 2) + 1)"
      by blast+
    have s1: "2 powi (exponentDown k (a * 2) - 1) = (2 powi (exponentDown k (a * 2)) / 2 :: real)"
      by (simp add: power_int_diff)
    have s2: "2 powi (exponentDown k (a * 2) - 1 + 1) = (2 powi (exponentDown k (a * 2) + 1) / 2 :: real)"
      by (simp add: power_int_add)
    have ed: "exponentDown (Suc k) a = exponentDown k (a * 2) - 1"
      using Suc.prems by simp
    show ?thesis
      unfolding ed s1 s2 using IH by simp
  qed
qed


lemma exponentOf_bounds:
  assumes "1 / 2 ^ 1022 \<le> \<bar>x\<bar>" and "\<bar>x\<bar> < 2 ^ 1024"
  shows "2 powi (exponentOf x) \<le> \<bar>x\<bar> \<and> \<bar>x\<bar> < 2 powi (exponentOf x + 1)"
proof (cases "1 \<le> \<bar>x\<bar>")
  case True
  have "\<bar>x\<bar> < 2 ^ Suc 1023" using assms(2) by simp
  from exponentUp_bounds [OF True this] True show ?thesis
    by (simp add: exponentOf_def)
next
  case False
  have "(0::real) < 1 / 2 ^ 1022" by simp
  then have pos: "0 < \<bar>x\<bar>" using assms(1) by linarith
  have "1 \<le> \<bar>x\<bar> * 2 ^ 1022" using assms(1) by (simp add: field_simps)
  from exponentDown_bounds [OF pos _ this] False show ?thesis
    by (simp add: exponentOf_def)
qed

lemma binary64_error:
  assumes "1 / 2 ^ 1022 \<le> \<bar>x\<bar>" and "\<bar>x\<bar> < 2 ^ 1024"
  shows "\<bar>binary64 x - x\<bar> \<le> \<bar>x\<bar> / 2 ^ 53"
proof -
  define ulp :: real where "ulp = 2 powi (exponentOf x - 52)"
  have ulp_pos: "0 < ulp" by (simp add: ulp_def)
  have "(0::real) < 1 / 2 ^ 1022" by simp
  then have x0: "x \<noteq> 0" using assms(1) by auto
  have b: "binary64 x = of_int (roundHalfEven (x / ulp)) * ulp"
    using x0 by (simp add: binary64_def ulp_def Let_def)
  have "binary64 x - x = (of_int (roundHalfEven (x / ulp)) - x / ulp) * ulp"
    using ulp_pos by (simp add: b left_diff_distrib)
  then have "\<bar>binary64 x - x\<bar> = \<bar>of_int (roundHalfEven (x / ulp)) - x / ulp\<bar> * ulp"
    using ulp_pos by (simp add: abs_mult)
  also have "\<dots> \<le> 1 / 2 * ulp"
    using roundHalfEven_error [of "x / ulp"] ulp_pos by (intro mult_right_mono) simp_all
  also have "\<dots> = 2 powi (exponentOf x) / 2 ^ 53"
    by (simp add: ulp_def power_int_diff)
  also have "\<dots> \<le> \<bar>x\<bar> / 2 ^ 53"
    using exponentOf_bounds [OF assms] by (intro divide_right_mono) simp_all
  finally show ?thesis .
qed

lemma binary64_product_error:
  assumes "normalRange d" and "normalRange (binary64 d * s)"
  shows "\<bar>binary64 (binary64 d * s) - d * s\<bar> \<le> \<bar>d * s\<bar> * (1 / 2 ^ 52 + 1 / 2 ^ 106)"
proof -
  let ?p = "binary64 d * s"
  have e1: "\<bar>binary64 d - d\<bar> \<le> \<bar>d\<bar> / 2 ^ 53"
    using assms(1) unfolding normalRange_def by (intro binary64_error) simp_all
  have e2: "\<bar>binary64 ?p - ?p\<bar> \<le> \<bar>?p\<bar> / 2 ^ 53"
    using assms(2) unfolding normalRange_def by (intro binary64_error) simp_all
  have "?p - d * s = (binary64 d - d) * s" by (simp add: left_diff_distrib)
  then have "\<bar>?p - d * s\<bar> = \<bar>binary64 d - d\<bar> * \<bar>s\<bar>" by (simp add: abs_mult)
  also have "\<dots> \<le> \<bar>d\<bar> / 2 ^ 53 * \<bar>s\<bar>"
    using e1 by (intro mult_right_mono) simp_all
  finally have e3: "\<bar>?p - d * s\<bar> \<le> \<bar>d * s\<bar> / 2 ^ 53" by (simp add: abs_mult)
  have "\<bar>?p\<bar> \<le> \<bar>d * s\<bar> + \<bar>?p - d * s\<bar>" by linarith
  with e3 have e4: "\<bar>?p\<bar> \<le> \<bar>d * s\<bar> + \<bar>d * s\<bar> / 2 ^ 53" by linarith
  have "\<bar>?p\<bar> / 2 ^ 53 \<le> (\<bar>d * s\<bar> + \<bar>d * s\<bar> / 2 ^ 53) / 2 ^ 53"
    using e4 by (intro divide_right_mono) simp_all
  with e2 have e5: "\<bar>binary64 ?p - ?p\<bar> \<le> (\<bar>d * s\<bar> + \<bar>d * s\<bar> / 2 ^ 53) / 2 ^ 53"
    by linarith
  have "\<bar>binary64 ?p - d * s\<bar> \<le> \<bar>binary64 ?p - ?p\<bar> + \<bar>?p - d * s\<bar>" by linarith
  with e5 e3 have "\<bar>binary64 ?p - d * s\<bar>
      \<le> (\<bar>d * s\<bar> + \<bar>d * s\<bar> / 2 ^ 53) / 2 ^ 53 + \<bar>d * s\<bar> / 2 ^ 53"
    by linarith
  also have "\<dots> = \<bar>d * s\<bar> * (1 / 2 ^ 52 + 1 / 2 ^ 106)"
    by (simp add: field_simps)
  finally show ?thesis .
qed

text \<open>The decimal literals of the examples, as binary64 values.\<close>

lemma binary64_literals:
  "binary64 0.70 = 6305039478318694 / 2 ^ 53"
  "binary64 0.40 = 3602879701896397 / 2 ^ 53"
  "binary64 0.60 = 5404319552844595 / 2 ^ 53"
  "binary64 0.30 = 5404319552844595 / 2 ^ 54"
  by (simp_all add: binary64_def exponentOf_def roundHalfEven_def power_int_minus
        eval_nat_numeral)

lemma binary64_example_YES:
  "binary64 (binary64 (binary64 0.70 - binary64 0.40) * 100) = 30 - 1 / 2 ^ 47"
proof -
  have d: "binary64 (binary64 0.70 - binary64 0.40) = 2702159776422297 / 2 ^ 53"
    by (simp add: binary64_literals)
       (simp add: binary64_def exponentOf_def roundHalfEven_def power_int_minus eval_nat_numeral)
  have p: "binary64 (2702159776422297 / 2 ^ 53 * 100) = 30 - 1 / 2 ^ 47"
    by (simp add: binary64_def exponentOf_def roundHalfEven_def power_int_minus eval_nat_numeral)
  show ?thesis by (simp only: d p)
qed

lemma binary64_example_NO:
  "binary64 (binary64 (binary64 0.60 - binary64 0.30) * 100) = 30"
proof -
  have d: "binary64 (binary64 0.60 - binary64 0.30) = 5404319552844595 / 2 ^ 54"
    by (simp add: binary64_literals)
       (simp add: binary64_def exponentOf_def roundHalfEven_def power_int_minus eval_nat_numeral)
  have p: "binary64 (5404319552844595 / 2 ^ 54 * 100) = 30"
    by (simp add: binary64_def exponentOf_def roundHalfEven_def power_int_minus eval_nat_numeral)
  show ?thesis by (simp only: d p)
qed

text \<open>
  Claim C5, as amended. For every position and exit probability, \<open>calculateRealizedPnl\<close>
  returns (exit probability - entry probability) * size when the side is YES and
  (entry probability - exit probability) * size when the side is NO, the subtraction and
  the multiplication each rounded to binary64; when the difference and the product are in
  the normal range, that is the exact product up to a relative error of
  \<open>2 ^ -52 + 2 ^ -106\<close>. A NO position with entry 0.60 and size 100 exited at 0.30 yields
  exactly 30; a YES position with entry 0.40 and size 100 exited at 0.70 yields
  \<open>30 - 2 ^ -47\<close>, which prints as 29.999999999999993.
\<close>

theorem C5_calculateRealizedPnl_binary64:
  "(side pos = YES \<longrightarrow>
      calculateRealizedPnl pos exitProbability
        = binary64 (binary64 (exitProbability - entryProbability pos) * sizeUsd pos))
   \<and> (side pos = NO \<longrightarrow>
      calculateRealizedPnl pos exitProbability
        = binary64 (binary64 (entryProbability pos - exitProbability) * sizeUsd pos))
   \<and> (let d = (if side pos = YES then exitProbability - entryProbability pos
                else entryProbability pos - exitProbability)
      in normalRange d \<and> normalRange (binary64 d * sizeUsd pos) \<longrightarrow>
           \<bar>calculateRealizedPnl pos exitProbability - d * sizeUsd pos\<bar>
             \<le> \<bar>d * sizeUsd pos\<bar> * (1 / 2 ^ 52 + 1 / 2 ^ 106))
   \<and> calculateRealizedPnl
        \<lparr>side = YES, entryProbability = binary64 0.40, sizeUsd = 100, openedAt = t,
         unrealizedPnl = u\<rparr>
        (binary64 0.70) = 30 - 1 / 2 ^ 47
   \<and> calculateRealizedPnl
        \<lparr>side = NO, entryProbability = binary64 0.60, sizeUsd = 100, openedAt = t,
         unrealizedPnl = u\<rparr>
        (binary64 0.30) = 30"
proof (intro conjI)
  show "side pos = YES \<longrightarrow>
      calculateRealizedPnl pos exitProbability
        = binary64 (binary64 (exitProbability - entryProbability pos) * sizeUsd pos)"
    by (simp add: calculateRealizedPnl_def)
  show "side pos = NO \<longrightarrow>
      calculateRealizedPnl pos exitProbability
        = binary64 (binary64 (entryProbability pos - exitProbability) * sizeUsd pos)"
    by (cases "side pos") (simp_all add: calculateRealizedPnl_def)
  show "let d = (if side pos = YES then exitProbability - entryProbability pos
                else entryProbability pos - exitProbability)
      in normalRange d \<and> normalRange (binary64 d * sizeUsd pos) \<longrightarrow>
           \<bar>calculateRealizedPnl pos exitProbability - d * sizeUsd pos\<bar>
             \<le> \<bar>d * sizeUsd pos\<bar> * (1 / 2 ^ 52 + 1 / 2 ^ 106)"
  proof -
    define d where "d = (if side pos = YES then exitProbability - entryProbability pos
                         else entryProbability pos - exitProbability)"
    have c: "calculateRealizedPnl pos exitProbability = binary64 (binary64 d * sizeUsd pos)"
      by (cases "side pos") (simp_all add: calculateRealizedPnl_def d_def)
    have "normalRange d \<and> normalRange (binary64 d * sizeUsd pos) \<longrightarrow>
           \<bar>calculateRealizedPnl pos exitProbability - d * sizeUsd pos\<bar>
             \<le> \<bar>d * sizeUsd pos\<bar> * (1 / 2 ^ 52 + 1 / 2 ^ 106)"
      unfolding c using binary64_product_error by blast
    then show ?thesis unfolding Let_def d_def .
  qed
  show "calculateRealizedPnl
        \<lparr>side = YES, entryProbability = binary64 0.40, sizeUsd = 100, openedAt = t,
         unrealizedPnl = u\<rparr>
        (binary64 0.70) = 30 - 1 / 2 ^ 47"
    by (simp only: calculateRealizedPnl_def Let_def position.simps simp_thms if_True
          binary64_example_YES)
  show "calculateRealizedPnl
        \<lparr>side = NO, entryProbability = binary64 0.60, sizeUsd = 100, openedAt = t,
         unrealizedPnl = u\<rparr>
        (binary64 0.30) = 30"
    by (simp only: calculateRealizedPnl_def Let_def position.simps side.simps simp_thms
          if_False binary64_example_NO)
qed

text \<open>
  A YES and a NO position with entry 0.25 and size 200 exited at 0.75: the difference and
  the product are in the normal range and are binary64 values, so the results are exact.
\<close>

theorem C5_calculateRealizedPnl_binary64_witness:
  "normalRange (0.75 - 0.25) \<and> normalRange (binary64 (0.75 - 0.25) * 200)
   \<and> calculateRealizedPnl
     \<lparr>side = YES, entryProbability = 0.25, sizeUsd = 200, openedAt = None, unrealizedPnl = 0\<rparr>
     0.75 = 100
   \<and> calculateRealizedPnl
     \<lparr>side = NO, entryProbability = 0.25, sizeUsd = 200, openedAt = None, unrealizedPnl = 0\<rparr>
     0.75 = - 100"
proof -
  have a: "binary64 (1 / 2) = 1 / 2" "binary64 (- (1 / 2)) = - (1 / 2)"
          "binary64 100 = 100" "binary64 (- 100) = - 100"
    by (simp_all add: binary64_def exponentOf_def roundHalfEven_def power_int_minus
          eval_nat_numeral)
  show ?thesis
    using C5_calculateRealizedPnl_binary64
            [of "\<lparr>side = YES, entryProbability = 0.25, sizeUsd = 200, openedAt = None,
                   unrealizedPnl = 0\<rparr>" "0.75"]
          C5_calculateRealizedPnl_binary64
            [of "\<lparr>side = NO, entryProbability = 0.25, sizeUsd = 200, openedAt = None,
                   unrealizedPnl = 0\<rparr>" "0.75"]
    by (simp add: a normalRange_def)
qed

text \<open>
  Claim C5 as stated fails: the YES position with entry 0.40 and size 100 exited at 0.70
  does not yield 30.
\<close>

theorem C5_calculateRealizedPnl_counterexample:
  "calculateRealizedPnl
     \<lparr>side = YES, entryProbability = binary64 0.40, sizeUsd = 100, openedAt = None,
      unrealizedPnl = 0\<rparr>
     (binary64 0.70) \<noteq> 30"
proof -
  have "calculateRealizedPnl
     \<lparr>side = YES, entryProbability = binary64 0.40, sizeUsd = 100, openedAt = None,
      unrealizedPnl = 0\<rparr>
     (binary64 0.70) = 30 - 1 / 2 ^ 47"
    by (simp only: calculateRealizedPnl_def Let_def position.simps simp_thms if_True
          binary64_example_YES)
  then show ?thesis by simp
qed

section \<open>Properties of the flip rule\<close>

text \<open>
  What \<open>shouldFlipPosition\<close> computes: the position is losing, the new confidence is at
  least 0.7, and the probability has moved by at least 0.1 from entry.
\<close>

lemma shouldFlipPosition_iff:
  "shouldFlipPosition pos mkt agent newConfidence \<longleftrightarrow>
     (if side pos = YES then currentProbability mkt < entryProbability pos
      else currentProbability mkt > entryProbability pos)
     \<and> newConfidence \<ge> 0.7
     \<and> \<bar>currentProbability mkt - entryProbability pos\<bar> \<ge> 0.1"
  by (auto simp: shouldFlipPosition_def Let_def)

text \<open>
  Claim C8 says that \<open>shouldFlipPosition\<close> returns true only when the position is losing,
  the new confidence exceeds 0.70, and the probability has moved by at least 0.10. The
  comment in the source says the same (\<^verbatim>\<open>New confidence is high enough (> 0.7)\<close>), but
  the test rejects only \<^verbatim>\<open>newConfidence < 0.7\<close>: for a losing YES position (entry 0.60,
  now 0.40) and a confidence of exactly 0.70, which does not exceed 0.70, the function
  returns true.
\<close>

theorem C8_shouldFlipPosition_at_confidence_0_70:
  "shouldFlipPosition
     \<lparr>side = YES, entryProbability = 0.60, sizeUsd = 100, openedAt = Some 0,
      unrealizedPnl = - 20\<rparr>
     \<lparr>market_id = ''m1'', currentProbability = 0.40\<rparr> agent 0.70 = True"
  by (simp add: shouldFlipPosition_def)

section \<open>Properties of the profile lookup\<close>

lemma map_of_AGENT_PROFILES_id:
  "map_of AGENT_PROFILES agentId = Some p \<Longrightarrow> profile_id p = agentId"
  by (auto simp: AGENT_PROFILES_def split: if_splits)

lemma map_of_AGENT_PROFILES_None:
  "agentId \<notin> set ALL_AGENT_IDS \<Longrightarrow> map_of AGENT_PROFILES agentId = None"
  by (simp add: ALL_AGENT_IDS_def map_of_eq_None_iff)

text \<open>For an agent id the lookup returns that agent's own profile.\<close>

lemma getAgentProfile_own:
  "agentId \<in> set ALL_AGENT_IDS \<Longrightarrow>
     \<exists>p. getAgentProfile agentId = Inr (Profile p) \<and> profile_id p = agentId
         \<and> (agentId, p) \<in> set AGENT_PROFILES"
  unfolding ALL_AGENT_IDS_def getAgentProfile_def lookupProfile_def
  by (auto simp: AGENT_PROFILES_def)

text \<open>It never returns the profile of another agent.\<close>

lemma getAgentProfile_never_other:
  "getAgentProfile agentId = Inr (Profile p) \<Longrightarrow> profile_id p = agentId"
  by (auto simp: getAgentProfile_def lookupProfile_def map_of_AGENT_PROFILES_id
           split: option.splits if_splits profileLookup.splits)

text \<open>
  It throws, naming the id, for every string that is neither an agent id nor the name of
  a member of \<^verbatim>\<open>Object.prototype\<close>.
\<close>

lemma getAgentProfile_unknown:
  "agentId \<notin> set ALL_AGENT_IDS \<Longrightarrow> agentId \<notin> set OBJECT_PROTOTYPE_KEYS \<Longrightarrow>
     getAgentProfile agentId = Inl (Error (''Unknown agent ID: '' @ agentId))"
  by (simp add: getAgentProfile_def lookupProfile_def map_of_AGENT_PROFILES_None)


text \<open>
  Claim C9 says that \<open>getAgentProfile\<close> throws an error naming the id for every string
  that is not one of the fixed agent ids. The string \<^verbatim>\<open>constructor\<close> is not an agent id,
  and the lookup does not throw for it: \<^verbatim>\<open>AGENT_PROFILES['constructor']\<close> is the member
  inherited from \<^verbatim>\<open>Object.prototype\<close>, which is truthy, so the test \<^verbatim>\<open>!profile\<close> fails
  and the inherited member is returned as if it were a profile.
\<close>

theorem C9_getAgentProfile_constructor:
  "getAgentProfile ''constructor'' = Inr (Inherited ''constructor'')"
  by (simp add: getAgentProfile_def lookupProfile_def AGENT_PROFILES_def
        OBJECT_PROTOTYPE_KEYS_def)

section \<open>Properties of the summary\<close>

lemma summary_fold_keeps_Some:
  "acc_bestPnl acc \<noteq> None \<Longrightarrow> acc_bestAgent acc \<noteq> None \<Longrightarrow>
     acc_bestPnl (foldl (\<lambda>acc entry. summaryStep entry acc) acc xs) \<noteq> None
   \<and> acc_bestAgent (foldl (\<lambda>acc entry. summaryStep entry acc) acc xs) \<noteq> None"
proof (induction xs arbitrary: acc)
  case Nil
  then show ?case by simp
next
  case (Cons x xs)
  have "acc_bestPnl (summaryStep x acc) \<noteq> None \<and> acc_bestAgent (summaryStep x acc) \<noteq> None"
    using Cons.prems by (auto simp: summaryStep_def Let_def split: option.splits)
  then show ?case using Cons.IH by simp
qed

lemma summaryStep_first:
  "acc_bestPnl acc = None \<Longrightarrow>
     acc_bestPnl (summaryStep entry acc) \<noteq> None
   \<and> acc_bestAgent (summaryStep entry acc) = Some (fst entry)"
  by (simp add: summaryStep_def Let_def)

lemma agentPnl_no_closed:
  "\<forall>t \<in> set ts. status t \<noteq> CLOSED \<Longrightarrow>
     foldl (\<lambda>sum t. sum + pnlOrZero t) 0 (filter (\<lambda>t. status t = CLOSED) ts) = 0"
  by (simp add: filter_False)

lemma summaryStep_no_closed_first:
  "acc_bestPnl acc = None \<Longrightarrow> \<forall>t \<in> set (snd entry). status t \<noteq> CLOSED \<Longrightarrow>
     acc_bestPnl (summaryStep entry acc) = Some 0
   \<and> acc_bestAgent (summaryStep entry acc) = Some (fst entry)"
  by (simp add: summaryStep_def Let_def agentPnl_no_closed)

lemma summaryStep_no_closed_later:
  "acc_bestPnl acc = Some 0 \<Longrightarrow> \<forall>t \<in> set (snd entry). status t \<noteq> CLOSED \<Longrightarrow>
     acc_bestPnl (summaryStep entry acc) = Some 0
   \<and> acc_bestAgent (summaryStep entry acc) = acc_bestAgent acc"
  by (simp add: summaryStep_def Let_def agentPnl_no_closed)

lemma summary_fold_no_closed:
  "acc_bestPnl acc = Some 0 \<Longrightarrow>
   \<forall>entry \<in> set xs. \<forall>t \<in> set (snd entry). status t \<noteq> CLOSED \<Longrightarrow>
     acc_bestPnl (foldl (\<lambda>acc entry. summaryStep entry acc) acc xs) = Some 0
   \<and> acc_bestAgent (foldl (\<lambda>acc entry. summaryStep entry acc) acc xs) = acc_bestAgent acc"
proof (induction xs arbitrary: acc)
  case Nil
  then show ?case by simp
next
  case (Cons x xs)
  have step: "acc_bestPnl (summaryStep x acc) = Some 0
              \<and> acc_bestAgent (summaryStep x acc) = acc_bestAgent acc"
    using Cons.prems by (intro summaryStep_no_closed_later) auto
  have "\<forall>entry \<in> set xs. \<forall>t \<in> set (snd entry). status t \<noteq> CLOSED"
    using Cons.prems by simp
  with step Cons.IH [of "summaryStep x acc"] show ?case by simp
qed

text \<open>
  Claim C1, as amended. \<open>computeSummaryStats\<close> returns \<open>bestAgentByPnl = null\<close> exactly
  when the mapping has no agents. When it has agents and none of them has a trade with
  status CLOSED, every agent's P\&L is 0, which is above \<^verbatim>\<open>-Infinity\<close>, and
  \<open>bestAgentByPnl\<close> is the first agent id of the mapping.
\<close>

theorem C1_bestAgentByPnl_null_iff_no_agents:
  "(bestAgentByPnl (computeSummaryStats tradesByAgent) = None \<longleftrightarrow> tradesByAgent = [])
   \<and> (tradesByAgent \<noteq> []
        \<and> (\<forall>entry \<in> set tradesByAgent. \<forall>t \<in> set (snd entry). status t \<noteq> CLOSED)
       \<longrightarrow> bestAgentByPnl (computeSummaryStats tradesByAgent) = Some (fst (hd tradesByAgent)))"
proof (cases tradesByAgent)
  case Nil
  then show ?thesis by (simp add: computeSummaryStats_def)
next
  case (Cons x xs)
  let ?init = "\<lparr>acc_totalPnl = 0, acc_open = 0, acc_closed = 0,
                 acc_bestAgent = None, acc_bestPnl = None\<rparr>"
  let ?f = "\<lambda>acc entry. summaryStep entry acc"
  have first: "acc_bestPnl (summaryStep x ?init) \<noteq> None"
              "acc_bestAgent (summaryStep x ?init) \<noteq> None"
    using summaryStep_first [of ?init x] by simp_all
  have some: "acc_bestPnl (foldl ?f (summaryStep x ?init) xs) \<noteq> None"
             "acc_bestAgent (foldl ?f (summaryStep x ?init) xs) \<noteq> None"
    using summary_fold_keeps_Some [OF first] by simp_all
  have a: "bestAgentByPnl (computeSummaryStats tradesByAgent) \<noteq> None"
    using some by (auto simp: computeSummaryStats_def Cons Let_def split: option.splits)
  have b: "bestAgentByPnl (computeSummaryStats tradesByAgent) = Some (fst x)"
    if nc: "\<forall>entry \<in> set tradesByAgent. \<forall>t \<in> set (snd entry). status t \<noteq> CLOSED"
  proof -
    have s1: "acc_bestPnl (summaryStep x ?init) = Some 0"
             "acc_bestAgent (summaryStep x ?init) = Some (fst x)"
      using summaryStep_no_closed_first [of ?init x] nc Cons by simp_all
    have "\<forall>entry \<in> set xs. \<forall>t \<in> set (snd entry). status t \<noteq> CLOSED"
      using nc Cons by simp
    from summary_fold_no_closed [OF s1(1) this] s1(2)
    show ?thesis by (simp add: computeSummaryStats_def Cons Let_def)
  qed
  from a b show ?thesis by (simp add: Cons)
qed

text \<open>Two agents, one with an open trade and one with no trades; and no agents at all.\<close>

theorem C1_bestAgentByPnl_null_iff_no_agents_witness:
  "bestAgentByPnl (computeSummaryStats
      [(''GROK_4'', [\<lparr>trade_marketId = ''m1'', status = OPEN, pnl = PnlUndefined,
                       investmentUsd = 100\<rparr>]),
       (''GPT_5'', [])]) = Some ''GROK_4''
   \<and> bestAgentByPnl (computeSummaryStats []) = None"
  using C1_bestAgentByPnl_null_iff_no_agents
          [of "[(''GROK_4'', [\<lparr>trade_marketId = ''m1'', status = OPEN, pnl = PnlUndefined,
                                investmentUsd = 100\<rparr>]),
                (''GPT_5'', [])]"]
        C1_bestAgentByPnl_null_iff_no_agents [of "[]"]
  by simp

text \<open>
  Claim C1 as stated fails: one agent whose only trade is open has no closed trade, and
  \<open>bestAgentByPnl\<close> is that agent, not \<^verbatim>\<open>null\<close>.
\<close>

theorem C1_bestAgentByPnl_counterexample:
  "bestAgentByPnl (computeSummaryStats
      [(''GROK_4'', [\<lparr>trade_marketId = ''m1'', status = OPEN, pnl = PnlUndefined,
                       investmentUsd = 100\<rparr>])])
     = Some ''GROK_4''"
  by (simp add: computeSummaryStats_def summaryStep_def)

section \<open>Properties of the agent trade cache\<close>

text \<open>The comparison loop finds a difference exactly when there is one at or after \<open>i\<close>.\<close>

lemma marketIdsDiffer_iff:
  "marketIdsDiffer i xs ys \<longleftrightarrow> (\<exists>j. i \<le> j \<and> j < length xs \<and> xs ! j \<noteq> ys ! j)"
proof (induction i xs ys rule: marketIdsDiffer.induct)
  case (1 i xs ys)
  show ?case
  proof (cases "i < length xs")
    case False
    then show ?thesis by (simp add: marketIdsDiffer.simps [of i xs ys])
  next
    case True
    show ?thesis
    proof (cases "xs ! i \<noteq> ys ! i")
      case True
      with \<open>i < length xs\<close> show ?thesis
        by (auto simp: marketIdsDiffer.simps [of i xs ys])
    next
      case False
      then have "marketIdsDiffer i xs ys \<longleftrightarrow> marketIdsDiffer (Suc i) xs ys"
        using True by (simp add: marketIdsDiffer.simps [of i xs ys])
      also have "\<dots> \<longleftrightarrow> (\<exists>j. Suc i \<le> j \<and> j < length xs \<and> xs ! j \<noteq> ys ! j)"
        using "1.IH" True False by simp
      also have "\<dots> \<longleftrightarrow> (\<exists>j. i \<le> j \<and> j < length xs \<and> xs ! j \<noteq> ys ! j)"
        using False by (metis Suc_leD Suc_leI le_neq_implies_less)
      finally show ?thesis .
    qed
  qed
qed

lemma marketIdsDiffer_neq:
  "length xs = length ys \<Longrightarrow> marketIdsDiffer 0 xs ys \<longleftrightarrow> xs \<noteq> ys"
  by (auto simp: marketIdsDiffer_iff list_eq_iff_nth_eq)

lemma getCachedAgentTrades_entry:
  "cache agentId = Some entry \<Longrightarrow>
     getCachedAgentTrades now agentId ids cache =
       (if now - generatedAt entry < CACHE_TTL_MS \<and> marketIds entry = ids
        then (Some (trades entry), cache) else (None, cache(agentId := None)))"
  by (cases "length (marketIds entry) = length ids")
     (auto simp: getCachedAgentTrades_def marketIdsDiffer_neq)

text \<open>
  Claim C3. After \<open>setCachedAgentTrades\<close> for an agent with trades \<open>ts\<close> and market ids
  \<open>S\<close> at time \<open>t0\<close>, a \<open>getCachedAgentTrades\<close> for that agent at time \<open>t1\<close>: with \<open>S\<close>
  and less than 30 seconds later returns exactly \<open>ts\<close> (and leaves the cache as it is);
  with any \<open>S'\<close> different from \<open>S\<close> returns \<^verbatim>\<open>null\<close> and evicts the entry; and 30 seconds
  later or more returns \<^verbatim>\<open>null\<close> and evicts the entry, whatever the market ids.
\<close>

theorem C3_agent_trade_cache:
  "(t1 - t0 < 30000 \<longrightarrow>
        getCachedAgentTrades t1 agentId S (setCachedAgentTrades t0 agentId ts S cache)
          = (Some ts, setCachedAgentTrades t0 agentId ts S cache))
   \<and> (S' \<noteq> S \<longrightarrow>
        getCachedAgentTrades t1 agentId S' (setCachedAgentTrades t0 agentId ts S cache)
          = (None, cache(agentId := None)))
   \<and> (t1 - t0 \<ge> 30000 \<longrightarrow>
        getCachedAgentTrades t1 agentId S'' (setCachedAgentTrades t0 agentId ts S cache)
          = (None, cache(agentId := None)))"
  by (auto simp: getCachedAgentTrades_entry [where entry = "\<lparr>trades = ts, generatedAt = t0, marketIds = S\<rparr>"]
        setCachedAgentTrades_def CACHE_TTL_MS_def)

text \<open>
  A hit one millisecond before expiry, a miss on a list of the same length with one other
  id, and a miss at expiry.
\<close>

theorem C3_agent_trade_cache_witness:
  "fst (getCachedAgentTrades 29999 ''GROK_4'' [''m1'', ''m2'']
          (setCachedAgentTrades 0 ''GROK_4'' [1::nat, 2] [''m1'', ''m2''] Map.empty)) = Some [1, 2]
   \<and> getCachedAgentTrades 10 ''GROK_4'' [''m1'', ''m3'']
          (setCachedAgentTrades 0 ''GROK_4'' [1::nat, 2] [''m1'', ''m2''] Map.empty) = (None, Map.empty)
   \<and> getCachedAgentTrades 30000 ''GROK_4'' [''m1'', ''m2'']
          (setCachedAgentTrades 0 ''GROK_4'' [1::nat, 2] [''m1'', ''m2''] Map.empty) = (None, Map.empty)"
  using C3_agent_trade_cache [of 29999 0 "''GROK_4''" "[''m1'', ''m2'']" "[1::nat, 2]" Map.empty "[''m1'', ''m3'']" "[''m1'', ''m2'']"]
        C3_agent_trade_cache [of 10 0 "''GROK_4''" "[''m1'', ''m2'']" "[1::nat, 2]" Map.empty "[''m1'', ''m3'']" "[''m1'', ''m2'']"]
        C3_agent_trade_cache [of 30000 0 "''GROK_4''" "[''m1'', ''m2'']" "[1::nat, 2]" Map.empty "[''m1'', ''m3'']" "[''m1'', ''m2'']"]
  by simp

section \<open>Properties of the agent statistics\<close>







section \<open>Properties of the batch processing of a portfolio\<close>

text \<open>
  Claim C2 says that \<open>processPositionLifecycle\<close> adds the realized P\&L of every position
  it closes, those closed for a missing market included, to the portfolio's realized-P\&L
  total, and returns all closed positions. The branch for a missing market pushes the
  closed position with its realized P\&L and deletes it, and then continues without the
  update of the portfolio that the other branch makes: a portfolio whose one position
  (unrealized P\&L 5) is on a market absent from the snapshot comes back with that position
  reported closed at a realized P\&L of 5 and a total that is still 0.
\<close>

theorem C2_missing_market_not_accumulated:
  "processPositionLifecycle (\<lambda>i. 1000)
     \<lparr>openPositions =
        [(''m1'', \<lparr>side = YES, entryProbability = 0.5, sizeUsd = 100, openedAt = Some 0,
                   unrealizedPnl = 5\<rparr>)],
      realizedPnlUsd = 0, currentCapitalUsd = 3000\<rparr>
     Map.empty None
   = (\<lparr>openPositions = [], realizedPnlUsd = 0, currentCapitalUsd = 3000\<rparr>,
      [\<lparr>position = \<lparr>side = YES, entryProbability = 0.5, sizeUsd = 100, openedAt = Some 0,
                     unrealizedPnl = 5\<rparr>,
        realizedPnl = 5\<rparr>])"
  by (simp add: processPositionLifecycle_def lifecycleStep_def deleteKey_def)

text \<open>
  More generally, when every open position is on a missing market, all of them are closed
  and the realized total is what it was.
\<close>

lemma lifecycleLoop_all_missing:
  "\<forall>entry \<in> set entries. marketsMap (fst entry) = None \<Longrightarrow>
     realizedPnlUsd (fst (lifecycleLoop clock i marketsMap scoresMap entries st))
       = realizedPnlUsd (fst st)
   \<and> length (snd (lifecycleLoop clock i marketsMap scoresMap entries st))
       = length (snd st) + length entries"
proof (induction entries arbitrary: i st)
  case Nil
  then show ?case by simp
next
  case (Cons e es)
  have e: "marketsMap (fst e) = None" using Cons.prems by simp
  have step: "realizedPnlUsd (fst (lifecycleStep (clock i) marketsMap scoresMap e st))
                = realizedPnlUsd (fst st)
              \<and> length (snd (lifecycleStep (clock i) marketsMap scoresMap e st))
                = Suc (length (snd st))"
    using e by (simp add: lifecycleStep_def Let_def)
  have "\<forall>entry \<in> set es. marketsMap (fst entry) = None" using Cons.prems by simp
  from Cons.IH [OF this, of "Suc i" "lifecycleStep (clock i) marketsMap scoresMap e st"] step
  show ?case by simp
qed

text \<open>Deleting a key removes it and keeps every entry of another key, in order.\<close>

lemma deleteKey_removes: "k \<notin> fst ` set (deleteKey k kvs)"
  by (auto simp: deleteKey_def)

lemma deleteKey_keeps_others:
  "k' \<noteq> k \<Longrightarrow> (k', v) \<in> set (deleteKey k kvs) \<longleftrightarrow> (k', v) \<in> set kvs"
  by (auto simp: deleteKey_def)

text \<open>The step for a position whose market is missing.\<close>

lemma lifecycleStep_missing:
  "marketsMap marketId = None \<Longrightarrow>
     lifecycleStep now marketsMap scoresMap (marketId, pos) (pf, closedPositions)
       = (pf\<lparr>openPositions := deleteKey marketId (openPositions pf)\<rparr>,
          closedPositions @ [\<lparr>position = pos, realizedPnl = unrealizedPnl pos\<rparr>])"
  by (simp add: lifecycleStep_def)

lemma lifecycleStep_closed_grows:
  "set (snd st) \<subseteq> set (snd (lifecycleStep now marketsMap scoresMap entry st))"
  by (auto simp: lifecycleStep_def Let_def split: option.splits)

lemma lifecycleLoop_closed_grows:
  "set (snd st) \<subseteq> set (snd (lifecycleLoop clock i marketsMap scoresMap entries st))"
proof (induction entries arbitrary: i st)
  case Nil
  then show ?case by simp
next
  case (Cons e es)
  have "set (snd st) \<subseteq> set (snd (lifecycleStep (clock i) marketsMap scoresMap e st))"
    by (rule lifecycleStep_closed_grows)
  also have "\<dots> \<subseteq> set (snd (lifecycleLoop clock (Suc i) marketsMap scoresMap es
                                 (lifecycleStep (clock i) marketsMap scoresMap e st)))"
    by (rule Cons.IH)
  finally show ?case by simp
qed

lemma lifecycleStep_open_subset:
  "set (openPositions (fst (lifecycleStep now marketsMap scoresMap entry st)))
     \<subseteq> set (openPositions (fst st))"
  by (auto simp: lifecycleStep_def Let_def deleteKey_def split: option.splits)

lemma lifecycleLoop_open_subset:
  "set (openPositions (fst (lifecycleLoop clock i marketsMap scoresMap entries st)))
     \<subseteq> set (openPositions (fst st))"
proof (induction entries arbitrary: i st)
  case Nil
  then show ?case by simp
next
  case (Cons e es)
  have "set (openPositions (fst (lifecycleLoop clock (Suc i) marketsMap scoresMap es
               (lifecycleStep (clock i) marketsMap scoresMap e st))))
          \<subseteq> set (openPositions (fst (lifecycleStep (clock i) marketsMap scoresMap e st)))"
    by (rule Cons.IH)
  also have "\<dots> \<subseteq> set (openPositions (fst st))"
    by (rule lifecycleStep_open_subset)
  finally show ?case by simp
qed

lemma lifecycleLoop_missing_closed:
  "(marketId, pos) \<in> set entries \<Longrightarrow> marketsMap marketId = None \<Longrightarrow>
     \<lparr>position = pos, realizedPnl = unrealizedPnl pos\<rparr>
       \<in> set (snd (lifecycleLoop clock i marketsMap scoresMap entries st))"
proof (induction entries arbitrary: i st)
  case Nil
  then show ?case by simp
next
  case (Cons e es)
  show ?case
  proof (cases "e = (marketId, pos)")
    case True
    have "\<lparr>position = pos, realizedPnl = unrealizedPnl pos\<rparr>
            \<in> set (snd (lifecycleStep (clock i) marketsMap scoresMap e st))"
      using True Cons.prems(2)
      by (cases st) (simp add: lifecycleStep_missing)
    moreover have "set (snd (lifecycleStep (clock i) marketsMap scoresMap e st))
        \<subseteq> set (snd (lifecycleLoop clock (Suc i) marketsMap scoresMap es
                        (lifecycleStep (clock i) marketsMap scoresMap e st)))"
      by (rule lifecycleLoop_closed_grows)
    ultimately show ?thesis by auto
  next
    case False
    then have "(marketId, pos) \<in> set es" using Cons.prems(1) by simp
    from Cons.IH [OF this Cons.prems(2)] show ?thesis by simp
  qed
qed

lemma lifecycleLoop_missing_removed:
  "(marketId, pos) \<in> set entries \<Longrightarrow> marketsMap marketId = None \<Longrightarrow>
     marketId \<notin> fst ` set (openPositions (fst (lifecycleLoop clock i marketsMap scoresMap entries st)))"
proof (induction entries arbitrary: i st)
  case Nil
  then show ?case by simp
next
  case (Cons e es)
  show ?case
  proof (cases "e = (marketId, pos)")
    case True
    have "marketId \<notin> fst ` set (openPositions (fst (lifecycleStep (clock i) marketsMap scoresMap e st)))"
      using True Cons.prems(2)
      by (cases st) (auto simp: lifecycleStep_missing deleteKey_def)
    moreover have "set (openPositions (fst (lifecycleLoop clock (Suc i) marketsMap scoresMap es
               (lifecycleStep (clock i) marketsMap scoresMap e st))))
          \<subseteq> set (openPositions (fst (lifecycleStep (clock i) marketsMap scoresMap e st)))"
      by (rule lifecycleLoop_open_subset)
    ultimately show ?thesis by auto
  next
    case False
    then have "(marketId, pos) \<in> set es" using Cons.prems(1) by simp
    from Cons.IH [OF this Cons.prems(2)] show ?thesis by simp
  qed
qed

text \<open>An open position stays open when no entry of its key is closed.\<close>

lemma lifecycleStep_other_key:
  "fst entry \<noteq> k \<Longrightarrow> (k, q) \<in> set (openPositions (fst st)) \<Longrightarrow>
     (k, q) \<in> set (openPositions (fst (lifecycleStep now marketsMap scoresMap entry st)))"
  by (auto simp: lifecycleStep_def Let_def deleteKey_def split: option.splits)

lemma lifecycleStep_not_closed:
  "marketsMap (fst entry) = Some mkt \<Longrightarrow>
   \<not> shouldClosePosition now (snd entry) mkt (scoreOf scoresMap (fst entry)) \<Longrightarrow>
     lifecycleStep now marketsMap scoresMap entry st = st"
  by (simp add: lifecycleStep_def)

lemma lifecycleLoop_survives:
  "(k, q) \<in> set (openPositions (fst st)) \<Longrightarrow>
   (\<forall>j < length entries. fst (entries ! j) = k \<longrightarrow>
      (\<exists>mkt. marketsMap k = Some mkt
         \<and> \<not> shouldClosePosition (clock (i + j)) (snd (entries ! j)) mkt (scoreOf scoresMap k))) \<Longrightarrow>
     (k, q) \<in> set (openPositions (fst (lifecycleLoop clock i marketsMap scoresMap entries st)))"
proof (induction entries arbitrary: i st)
  case Nil
  then show ?case by simp
next
  case (Cons e es)
  have step: "(k, q) \<in> set (openPositions (fst (lifecycleStep (clock i) marketsMap scoresMap e st)))"
  proof (cases "fst e = k")
    case True
    with Cons.prems(2) [rule_format, of 0] obtain mkt where
      "marketsMap k = Some mkt" "\<not> shouldClosePosition (clock i) (snd e) mkt (scoreOf scoresMap k)"
      by auto
    with True have "lifecycleStep (clock i) marketsMap scoresMap e st = st"
      by (simp add: lifecycleStep_not_closed)
    with Cons.prems(1) show ?thesis by simp
  next
    case False
    then show ?thesis using Cons.prems(1) by (rule lifecycleStep_other_key)
  qed
  have rest: "\<forall>j < length es. fst (es ! j) = k \<longrightarrow>
      (\<exists>mkt. marketsMap k = Some mkt
         \<and> \<not> shouldClosePosition (clock (Suc i + j)) (snd (es ! j)) mkt (scoreOf scoresMap k))"
  proof (intro allI impI)
    fix j assume "j < length es" "fst (es ! j) = k"
    with Cons.prems(2) [rule_format, of "Suc j"] show
      "\<exists>mkt. marketsMap k = Some mkt
         \<and> \<not> shouldClosePosition (clock (Suc i + j)) (snd (es ! j)) mkt (scoreOf scoresMap k)"
      by simp
  qed
  from Cons.IH [OF step rest] show ?case by simp
qed

lemma distinct_keys_index:
  "distinct (map fst kvs) \<Longrightarrow> i < length kvs \<Longrightarrow> j < length kvs \<Longrightarrow>
     fst (kvs ! j) = fst (kvs ! i) \<Longrightarrow> j = i"
  by (metis distinct_conv_nth length_map nth_map)

text \<open>
  Claim C6. When \<open>processPositionLifecycle\<close> meets an open position \<open>pos\<close> on a market
  \<open>marketId\<close> that is absent from the snapshot: (1) the close of that position, on any
  portfolio and list of closed positions so far, appends the position with its last
  unrealized P\&L as the realized value and deletes the key \<open>marketId\<close> from the open
  positions, and changes nothing else: every other open position, the realized total and
  the capital are as before; (2) the returned list has that entry; (3) the market id is no
  longer among the open positions; (4) every open position whose market is in the snapshot
  and which meets no exit condition is still open after the batch.
\<close>

theorem C6_missing_market_force_close:
  assumes "distinct (map fst (openPositions pf))"
      and "(marketId, pos) \<in> set (openPositions pf)"
      and "marketsMap marketId = None"
  shows "lifecycleStep now marketsMap scoresMap (marketId, pos) (pf', closedPositions)
           = (pf'\<lparr>openPositions := deleteKey marketId (openPositions pf')\<rparr>,
              closedPositions @ [\<lparr>position = pos, realizedPnl = unrealizedPnl pos\<rparr>])
         \<and> \<lparr>position = pos, realizedPnl = unrealizedPnl pos\<rparr>
              \<in> set (snd (processPositionLifecycle clock pf marketsMap scoresMap))
         \<and> marketId \<notin> fst ` set (openPositions
              (fst (processPositionLifecycle clock pf marketsMap scoresMap)))
         \<and> (\<forall>i < length (openPositions pf). \<forall>k q mkt.
               openPositions pf ! i = (k, q) \<and> marketsMap k = Some mkt
                 \<and> \<not> shouldClosePosition (clock i) q mkt (scoreOf scoresMap k)
               \<longrightarrow> (k, q) \<in> set (openPositions
                      (fst (processPositionLifecycle clock pf marketsMap scoresMap))))"
proof (intro conjI)
  show "lifecycleStep now marketsMap scoresMap (marketId, pos) (pf', closedPositions)
           = (pf'\<lparr>openPositions := deleteKey marketId (openPositions pf')\<rparr>,
              closedPositions @ [\<lparr>position = pos, realizedPnl = unrealizedPnl pos\<rparr>])"
    using assms(3) by (rule lifecycleStep_missing)
  show "\<lparr>position = pos, realizedPnl = unrealizedPnl pos\<rparr>
           \<in> set (snd (processPositionLifecycle clock pf marketsMap scoresMap))"
    unfolding processPositionLifecycle_def
    using assms(2,3) by (rule lifecycleLoop_missing_closed)
  show "marketId \<notin> fst ` set (openPositions
           (fst (processPositionLifecycle clock pf marketsMap scoresMap)))"
    unfolding processPositionLifecycle_def
    using assms(2,3) by (rule lifecycleLoop_missing_removed)
  show "\<forall>i < length (openPositions pf). \<forall>k q mkt.
           openPositions pf ! i = (k, q) \<and> marketsMap k = Some mkt
             \<and> \<not> shouldClosePosition (clock i) q mkt (scoreOf scoresMap k)
           \<longrightarrow> (k, q) \<in> set (openPositions
                  (fst (processPositionLifecycle clock pf marketsMap scoresMap)))"
  proof (intro allI impI)
    fix i k q mkt
    assume i: "i < length (openPositions pf)"
       and h: "openPositions pf ! i = (k, q) \<and> marketsMap k = Some mkt
             \<and> \<not> shouldClosePosition (clock i) q mkt (scoreOf scoresMap k)"
    have mem: "(k, q) \<in> set (openPositions (fst (pf, [])))"
      using i h by (metis fst_conv nth_mem)
    have only: "\<forall>j < length (openPositions pf). fst (openPositions pf ! j) = k \<longrightarrow>
      (\<exists>mkt. marketsMap k = Some mkt
         \<and> \<not> shouldClosePosition (clock (0 + j)) (snd (openPositions pf ! j)) mkt
               (scoreOf scoresMap k))"
    proof (intro allI impI)
      fix j assume j: "j < length (openPositions pf)" "fst (openPositions pf ! j) = k"
      then have "j = i"
        using distinct_keys_index [OF assms(1) i, of j] h by simp
      with h show "\<exists>mkt. marketsMap k = Some mkt
         \<and> \<not> shouldClosePosition (clock (0 + j)) (snd (openPositions pf ! j)) mkt
               (scoreOf scoresMap k)"
        by simp
    qed
    show "(k, q) \<in> set (openPositions
                  (fst (processPositionLifecycle clock pf marketsMap scoresMap)))"
      unfolding processPositionLifecycle_def
      using mem only by (rule lifecycleLoop_survives)
  qed
qed

text \<open>
  Two positions, the first on a market that is missing and the second on a market at 0.5:
  the first is closed at its unrealized P\&L of 5 and the second is all that stays open.
\<close>

theorem C6_missing_market_force_close_witness:
  "\<lparr>position = \<lparr>side = YES, entryProbability = 0.5, sizeUsd = 100, openedAt = Some 0,
                 unrealizedPnl = 5\<rparr>,
     realizedPnl = 5\<rparr>
     \<in> set (snd (processPositionLifecycle (\<lambda>i. 86400000)
          \<lparr>openPositions =
             [(''m1'', \<lparr>side = YES, entryProbability = 0.5, sizeUsd = 100, openedAt = Some 0,
                        unrealizedPnl = 5\<rparr>),
              (''m2'', \<lparr>side = NO, entryProbability = 0.5, sizeUsd = 40, openedAt = Some 0,
                        unrealizedPnl = - 3\<rparr>)],
           realizedPnlUsd = 0, currentCapitalUsd = 3000\<rparr>
          [''m2'' \<mapsto> \<lparr>market_id = ''m2'', currentProbability = 0.5\<rparr>] None))
   \<and> openPositions (fst (processPositionLifecycle (\<lambda>i. 86400000)
          \<lparr>openPositions =
             [(''m1'', \<lparr>side = YES, entryProbability = 0.5, sizeUsd = 100, openedAt = Some 0,
                        unrealizedPnl = 5\<rparr>),
              (''m2'', \<lparr>side = NO, entryProbability = 0.5, sizeUsd = 40, openedAt = Some 0,
                        unrealizedPnl = - 3\<rparr>)],
           realizedPnlUsd = 0, currentCapitalUsd = 3000\<rparr>
          [''m2'' \<mapsto> \<lparr>market_id = ''m2'', currentProbability = 0.5\<rparr>] None))
      = [(''m2'', \<lparr>side = NO, entryProbability = 0.5, sizeUsd = 40, openedAt = Some 0,
                   unrealizedPnl = - 3\<rparr>)]"
proof -
  let ?p1 = "\<lparr>side = YES, entryProbability = 0.5, sizeUsd = 100, openedAt = Some 0,
              unrealizedPnl = 5\<rparr>"
  let ?p2 = "\<lparr>side = NO, entryProbability = 0.5, sizeUsd = 40, openedAt = Some 0,
              unrealizedPnl = - 3\<rparr>"
  let ?pf = "\<lparr>openPositions = [(''m1'', ?p1), (''m2'', ?p2)],
              realizedPnlUsd = 0, currentCapitalUsd = 3000\<rparr>"
  let ?M = "[''m2'' \<mapsto> \<lparr>market_id = ''m2'', currentProbability = 0.5\<rparr>]"
  have h1: "distinct (map fst (openPositions ?pf))" by simp
  have h2: "(''m1'', ?p1) \<in> set (openPositions ?pf)" by simp
  have h3: "?M ''m1'' = None" by simp
  show ?thesis
    using C6_missing_market_force_close
            [where pf = ?pf and marketId = "''m1''" and pos = ?p1 and marketsMap = ?M
               and now = 0 and scoresMap = None and pf' = ?pf and closedPositions = "[]"
               and clock = "\<lambda>i. 86400000", OF h1 h2 h3]
    by (simp add: processPositionLifecycle_def lifecycleStep_def deleteKey_def
          shouldClosePosition_def scoreOf_def daysOpen_def EXIT_THRESHOLDS)
qed

section \<open>Properties of the trade generator\<close>




lemma length_outcomesFrom:
  "length (outcomesFrom consult xs i s) = length xs - i"
proof (induction consult xs i s rule: outcomesFrom.induct)
  case (1 consult xs i s)
  show ?case
  proof (cases "i < length xs")
    case False
    then show ?thesis by (simp add: outcomesFrom.simps [of consult xs i s])
  next
    case True
    obtain outcome s' where c: "consult (xs ! i) i s = (outcome, s')"
      by (cases "consult (xs ! i) i s")
    have "length (outcomesFrom consult xs (Suc i) s') = length xs - Suc i"
      using "1.IH" [OF True c [symmetric]] by simp
    then show ?thesis
      using True c by (simp add: outcomesFrom.simps [of consult xs i s])
  qed
qed
















end
